theory Spec2Isabelle
  imports Main
begin

section \<open>The ride order lifecycle of src/13.2/main.go\<close>

text \<open>
  The ride-hailing program declares \<open>RideState\<close> and \<open>RideEvent\<close> as Go string types,
  so a state or an event is any string; the named constants are seven and eleven of them.
  An order built without a \<open>State\<close> field holds the empty string.
\<close>

type_synonym RideState = string
type_synonym RideEvent = string

definition StateIdle :: RideState where "StateIdle = ''Idle''"
definition StateCarSelected :: RideState where "StateCarSelected = ''CarSelected''"
definition StateOrderConfirmed :: RideState where "StateOrderConfirmed = ''OrderConfirmed''"
definition StateCarArrived :: RideState where "StateCarArrived = ''CarArrived''"
definition StateInTrip :: RideState where "StateInTrip = ''InTrip''"
definition StateTripCompleted :: RideState where "StateTripCompleted = ''TripCompleted''"
definition StateTripCancelled :: RideState where "StateTripCancelled = ''TripCancelled''"

definition EventSelectCar :: RideEvent where "EventSelectCar = ''selectCar''"
definition EventConfirmOrder :: RideEvent where "EventConfirmOrder = ''confirmOrder''"
definition EventCarArrived :: RideEvent where "EventCarArrived = ''carArrived''"
definition EventStartTrip :: RideEvent where "EventStartTrip = ''startTrip''"
definition EventEndTrip :: RideEvent where "EventEndTrip = ''endTrip''"
definition EventCancelOrder :: RideEvent where "EventCancelOrder = ''cancelOrder''"
definition EventCarDelayed :: RideEvent where "EventCarDelayed = ''carDelayed''"
definition EventPaymentSuccess :: RideEvent where "EventPaymentSuccess = ''paymentSuccess''"
definition EventPaymentFailed :: RideEvent where "EventPaymentFailed = ''paymentFailed''"
definition EventChangeCar :: RideEvent where "EventChangeCar = ''changeCar''"
definition EventEmergencyCancel :: RideEvent where "EventEmergencyCancel = ''emergencyCancel''"

record RideOrder =
  ID :: string
  State :: RideState
  CarID :: string
  Driver :: string
  Rating :: int

subsection \<open>The transition table\<close>

text \<open>
  The package-level map \<open>transitions\<close>, a map from a state to a map from an event to the
  next state, in the order of the source. A Go map literal cannot repeat a constant key,
  so an association list read with \<open>map_of\<close> is the same map.
\<close>

definition transitions :: "(RideState \<times> (RideEvent \<times> RideState) list) list" where
  "transitions =
    [(StateIdle,
        [(EventSelectCar, StateCarSelected),
         (EventCancelOrder, StateTripCancelled)]),
     (StateCarSelected,
        [(EventConfirmOrder, StateOrderConfirmed),
         (EventChangeCar, StateCarSelected),
         (EventCancelOrder, StateTripCancelled)]),
     (StateOrderConfirmed,
        [(EventCarArrived, StateCarArrived),
         (EventCancelOrder, StateTripCancelled),
         (EventCarDelayed, StateTripCancelled)]),
     (StateCarArrived,
        [(EventStartTrip, StateInTrip),
         (EventCancelOrder, StateTripCancelled)]),
     (StateInTrip,
        [(EventEndTrip, StateTripCompleted),
         (EventEmergencyCancel, StateTripCancelled)]),
     (StateTripCompleted,
        [(EventPaymentSuccess, StateIdle),
         (EventPaymentFailed, StateTripCompleted)]),
     (StateTripCancelled, [])]"

text \<open>
  The index expression \<open>transitions[s][e]\<close> in its two-result form. Indexing a Go map at
  a missing key gives the zero value: the nil map for the outer map, and the empty string
  with \<open>ok = false\<close> for the inner one (also when the inner map is nil).
\<close>

definition transitions_at :: "RideState \<Rightarrow> RideEvent \<Rightarrow> RideState \<times> bool" where
  "transitions_at s e =
    (case map_of transitions s of
       None \<Rightarrow> ('''', False)
     | Some m \<Rightarrow>
        (case map_of m e of
           None \<Rightarrow> ('''', False)
         | Some t \<Rightarrow> (t, True)))"

subsection \<open>The engine\<close>

text \<open>
  What a run does to the outside, in program order: a line written to standard output,
  and a store to a field of the order. The program state is the order together with the
  trace of these actions so far.
\<close>

datatype action =
    Stdout string
  | Store_State RideState
  | Store_Rating int

record world =
  ride :: RideOrder
  trace :: "action list"

text \<open>A Go \<open>error\<close> built by \<open>fmt.Errorf\<close> or \<open>errors.New\<close> is its message; \<open>nil\<close> is \<open>None\<close>.\<close>

type_synonym error = string

definition println :: "string \<Rightarrow> world \<Rightarrow> world" where
  "println s w = w\<lparr>trace := trace w @ [Stdout s]\<rparr>"

definition set_State :: "RideState \<Rightarrow> world \<Rightarrow> world" where
  "set_State s w = w\<lparr>ride := (ride w)\<lparr>State := s\<rparr>, trace := trace w @ [Store_State s]\<rparr>"

definition set_Rating :: "int \<Rightarrow> world \<Rightarrow> world" where
  "set_Rating n w = w\<lparr>ride := (ride w)\<lparr>Rating := n\<rparr>, trace := trace w @ [Store_Rating n]\<rparr>"

definition CanTransition :: "RideOrder \<Rightarrow> RideEvent \<Rightarrow> bool" where
  "CanTransition r event = snd (transitions_at (State r) event)"

text \<open>The \<open>switch event\<close> of \<open>Transition\<close>: the line printed for the event, if any case matches.\<close>

definition event_message :: "RideEvent \<Rightarrow> string option" where
  "event_message event =
    (if event = EventSelectCar then Some ''Car selected.''
     else if event = EventConfirmOrder then Some ''Order confirmed. Car is on the way.''
     else if event = EventCarArrived then Some ''Car has arrived.''
     else if event = EventStartTrip then Some ''Trip started.''
     else if event = EventEndTrip then Some ''Trip completed. Payment pending.''
     else if event = EventCancelOrder \<or> event = EventCarDelayed \<or> event = EventEmergencyCancel
       then Some ''Order cancelled.''
     else if event = EventPaymentSuccess then Some ''Payment successful.''
     else if event = EventPaymentFailed then Some ''Payment failed. Please try again.''
     else None)"

definition invalid_transition :: "RideState \<Rightarrow> RideEvent \<Rightarrow> error" where
  "invalid_transition s event = ''invalid transition: '' @ s @ '' -> '' @ event"

definition transition_log :: "string \<Rightarrow> RideState \<Rightarrow> RideState \<Rightarrow> string" where
  "transition_log i s t = ''Order '' @ i @ '': '' @ s @ '' -> '' @ t"

definition Transition :: "RideEvent \<Rightarrow> world \<Rightarrow> error option \<times> world" where
  "Transition event w =
    (if \<not> CanTransition (ride w) event
     then (Some (invalid_transition (State (ride w)) event), w)
     else
       let newState = fst (transitions_at (State (ride w)) event);
           w1 = println (transition_log (ID (ride w)) (State (ride w)) newState) w;
           w2 = set_State newState w1;
           w3 = (case event_message event of None \<Rightarrow> w2 | Some m \<Rightarrow> println m w2)
       in (None, w3))"

text \<open>
  \<open>SimulateDelay\<close> reads the state once, sleeps, prints and then calls \<open>Transition\<close>, whose
  error it discards. The sleep is where another flow holding the same order can run, so
  the function is cut there: \<open>SimulateDelay_guard\<close> is the test before the sleep and
  \<open>SimulateDelay_fire\<close> what runs after it, on the order as it is then. The duration of
  the sleep is not modelled.
\<close>

definition SimulateDelay_guard :: "world \<Rightarrow> bool" where
  "SimulateDelay_guard w = (State (ride w) = StateOrderConfirmed)"

definition SimulateDelay_fire :: "world \<Rightarrow> world" where
  "SimulateDelay_fire w = snd (Transition EventCarDelayed (println ''Car is delayed...'' w))"

definition SimulateDelay :: "world \<Rightarrow> world" where
  "SimulateDelay w = (if SimulateDelay_guard w then SimulateDelay_fire w else w)"

text \<open>
  The driver calls \<open>Transition\<close> once per event and drops the returned error, whatever it
  is. \<open>Transitions\<close> is such a run of calls; it keeps the returned errors, in order, next to
  the final state.
\<close>

fun Transitions :: "RideEvent list \<Rightarrow> world \<Rightarrow> error option list \<times> world" where
  "Transitions [] w = ([], w)"
| "Transitions (event # events) w =
    (let (err, w1) = Transition event w;
         (errs, w2) = Transitions events w1
     in (err # errs, w2))"

text \<open>
  The watcher started on \<open>w\<close> while the main flow applies \<open>events\<close> during the watcher's
  sleep: the guard sees the order as it was at the start, the rest sees it as the main
  flow left it. Each call of \<open>Transition\<close> is taken as one uninterrupted step.
\<close>

definition SimulateDelay_after :: "RideEvent list \<Rightarrow> world \<Rightarrow> world" where
  "SimulateDelay_after events w =
    (if SimulateDelay_guard w
     then SimulateDelay_fire (snd (Transitions events w))
     else snd (Transitions events w))"

text \<open>The six calls at the head of \<open>main\<close>.\<close>

definition main_events :: "RideEvent list" where
  "main_events =
    [EventSelectCar, EventConfirmOrder, EventCarArrived,
     EventStartTrip, EventEndTrip, EventPaymentSuccess]"

text \<open>
  The orders of \<open>main\<close> are built as \<open>&RideOrder{ID: id, State: StateIdle}\<close>: the other
  fields hold their zero values, and nothing has been printed or stored yet.
\<close>

definition new_order :: "string \<Rightarrow> world" where
  "new_order i =
    \<lparr>ride = \<lparr>ID = i, State = StateIdle, CarID = [], Driver = [], Rating = 0\<rparr>,
     trace = []\<rparr>"

text \<open>
  The second and third scenario of \<open>main\<close>, each after its two calls: \<open>order2\<close> has been
  cancelled, \<open>order3\<close> is the confirmed order handed to \<open>go order3.SimulateDelay()\<close>.
\<close>

definition order2 :: world where
  "order2 = snd (Transitions [EventSelectCar, EventCancelOrder] (new_order ''RIDE-002''))"

definition order3 :: world where
  "order3 = snd (Transitions [EventSelectCar, EventConfirmOrder] (new_order ''RIDE-003''))"

subsection \<open>Rating\<close>

text \<open>The verb \<open>%d\<close> of \<open>fmt.Printf\<close> on an \<open>int\<close>: decimal digits, with a minus sign below zero.\<close>

fun digits :: "nat \<Rightarrow> string" where
  "digits n =
    (if n < 10 then [''0123456789'' ! n]
     else digits (n div 10) @ [''0123456789'' ! (n mod 10)])"

definition format_d :: "int \<Rightarrow> string" where
  "format_d i = (if i < 0 then CHR ''-'' # digits (nat (- i)) else digits (nat i))"

definition rating_not_eligible :: error where
  "rating_not_eligible = ''rating can only be submitted after the trip cycle is complete''"

definition rating_out_of_range :: error where
  "rating_out_of_range = ''rating must be between 1 and 5''"

text \<open>
  \<open>rating\<close> is a Go \<open>int\<close>; it is only compared and stored, never computed with, so it is
  an \<open>int\<close> here.
\<close>

definition SubmitRating :: "int \<Rightarrow> world \<Rightarrow> error option \<times> world" where
  "SubmitRating rating w =
    (if State (ride w) \<noteq> StateIdle then (Some rating_not_eligible, w)
     else if rating < 1 \<or> rating > 5 then (Some rating_out_of_range, w)
     else
       let w1 = set_Rating rating w;
           w2 = println (''Thank you for the rating: '' @ format_d rating) w1
       in (None, w2))"

subsection \<open>The table of the specification\<close>

text \<open>
  The rows of the specification's section 4.1, one entry per
  (from, event, to), written down from the specification and not from the code.
\<close>

definition spec_table :: "((RideState \<times> RideEvent) \<times> RideState) list" where
  "spec_table =
    [((StateIdle, EventSelectCar), StateCarSelected),
     ((StateIdle, EventCancelOrder), StateTripCancelled),
     ((StateCarSelected, EventConfirmOrder), StateOrderConfirmed),
     ((StateCarSelected, EventChangeCar), StateCarSelected),
     ((StateCarSelected, EventCancelOrder), StateTripCancelled),
     ((StateOrderConfirmed, EventCarArrived), StateCarArrived),
     ((StateOrderConfirmed, EventCancelOrder), StateTripCancelled),
     ((StateOrderConfirmed, EventCarDelayed), StateTripCancelled),
     ((StateCarArrived, EventStartTrip), StateInTrip),
     ((StateCarArrived, EventCancelOrder), StateTripCancelled),
     ((StateInTrip, EventEndTrip), StateTripCompleted),
     ((StateInTrip, EventEmergencyCancel), StateTripCancelled),
     ((StateTripCompleted, EventPaymentSuccess), StateIdle),
     ((StateTripCompleted, EventPaymentFailed), StateTripCompleted)]"

section \<open>Properties\<close>

lemmas state_defs = StateIdle_def StateCarSelected_def StateOrderConfirmed_def
  StateCarArrived_def StateInTrip_def StateTripCompleted_def StateTripCancelled_def


lemmas event_defs = EventSelectCar_def EventConfirmOrder_def EventCarArrived_def
  EventStartTrip_def EventEndTrip_def EventCancelOrder_def EventCarDelayed_def
  EventPaymentSuccess_def EventPaymentFailed_def EventChangeCar_def EventEmergencyCancel_def


lemmas run_defs = Transition_def CanTransition_def transitions_at_def transitions_def Let_def
  set_State_def println_def event_message_def transition_log_def invalid_transition_def
  state_defs event_defs

subsection \<open>The table as the code reads it\<close>

lemma transitions_at_spec:
  "transitions_at s e =
    (case map_of spec_table (s, e) of None \<Rightarrow> ('''', False) | Some t \<Rightarrow> (t, True))"
  by (simp add: transitions_at_def transitions_def spec_table_def state_defs event_defs)

lemma CanTransition_spec:
  "CanTransition r e = (map_of spec_table (State r, e) \<noteq> None)"
  by (simp add: CanTransition_def transitions_at_spec split: option.split)

lemma cancelled_rejects: "State r = StateTripCancelled \<Longrightarrow> \<not> CanTransition r e"
  by (simp add: CanTransition_spec spec_table_def state_defs)

subsection \<open>The two branches of Transition\<close>

lemma Transition_reject:
  "\<not> CanTransition (ride w) e \<Longrightarrow>
    Transition e w = (Some (invalid_transition (State (ride w)) e), w)"
  by (simp add: Transition_def)

lemma Transition_accept:
  "CanTransition (ride w) e \<Longrightarrow>
    Transition e w =
      (None,
       (case event_message e of None \<Rightarrow> id | Some m \<Rightarrow> println m)
         (set_State (fst (transitions_at (State (ride w)) e))
           (println (transition_log (ID (ride w)) (State (ride w))
              (fst (transitions_at (State (ride w)) e))) w)))"
  by (simp add: Transition_def Let_def split: option.split)

lemma Transition_trace:
  "CanTransition (ride w) e \<Longrightarrow>
    trace (snd (Transition e w)) =
      trace w @
      [Stdout (transition_log (ID (ride w)) (State (ride w))
         (fst (transitions_at (State (ride w)) e))),
       Store_State (fst (transitions_at (State (ride w)) e))] @
      (case event_message e of None \<Rightarrow> [] | Some m \<Rightarrow> [Stdout m])"
  by (simp add: Transition_accept println_def set_State_def split: option.split)

lemma Transition_ride:
  "CanTransition (ride w) e \<Longrightarrow>
    ride (snd (Transition e w)) =
      (ride w)\<lparr>State := fst (transitions_at (State (ride w)) e)\<rparr>"
  by (simp add: Transition_accept println_def set_State_def split: option.split)

lemma Transitions_cancelled:
  "State (ride w) = StateTripCancelled \<Longrightarrow>
    Transitions es w = (map (\<lambda>e. Some (invalid_transition StateTripCancelled e)) es, w)"
  by (induction es) (simp_all add: Transition_reject cancelled_rejects)

subsection \<open>Validation\<close>

text \<open>
  Claim C1. For every order and every event, \<open>CanTransition\<close> is true exactly when the
  map \<open>transitions\<close> holds an inner map for the order's state and that inner map holds a
  target for the event; \<open>Transition\<close> returns \<open>nil\<close> exactly when \<open>CanTransition\<close> is true;
  and when it is false, \<open>Transition\<close> returns the invalid-transition error naming the
  state and the event, with the order and the trace exactly as they were: no field is
  stored and nothing is printed. States and events range over all strings.
\<close>

theorem Transition_validates:
  "(CanTransition r e \<longleftrightarrow>
      (\<exists>m t. map_of transitions (State r) = Some m \<and> map_of m e = Some t))
   \<and> (fst (Transition e w) = None \<longleftrightarrow> CanTransition (ride w) e)
   \<and> (\<not> CanTransition (ride w) e \<longrightarrow>
        Transition e w = (Some (invalid_transition (State (ride w)) e), w))"
proof (intro conjI impI)
  show "CanTransition r e \<longleftrightarrow>
      (\<exists>m t. map_of transitions (State r) = Some m \<and> map_of m e = Some t)"
    by (auto simp add: CanTransition_def transitions_at_def split: option.splits)
  show "fst (Transition e w) = None \<longleftrightarrow> CanTransition (ride w) e"
    by (cases "CanTransition (ride w) e") (simp_all add: Transition_accept Transition_reject)
  show "Transition e w = (Some (invalid_transition (State (ride w)) e), w)"
    if "\<not> CanTransition (ride w) e"
    using that by (rule Transition_reject)
qed

text \<open>
  At a fresh order, \<open>startTrip\<close> is not in the row of \<open>Idle\<close>: the call is refused and the
  order is as it was.
\<close>

theorem Transition_validates_witness:
  "\<not> CanTransition (ride (new_order ''RIDE-001'')) EventStartTrip
   \<and> Transition EventStartTrip (new_order ''RIDE-001'') =
       (Some ''invalid transition: Idle -> startTrip'', new_order ''RIDE-001'')"
  using Transition_validates [of "ride (new_order ''RIDE-001'')" EventStartTrip
      "new_order ''RIDE-001''"]
  by (simp add: new_order_def CanTransition_spec spec_table_def invalid_transition_def
      state_defs event_defs)

subsection \<open>The contents of the table\<close>

text \<open>
  Claim C2. The map \<open>transitions\<close> holds exactly the entries of the specification's
  table of section 4.1 (\<open>spec_table\<close>, fourteen entries with pairwise different keys, none
  of them from \<open>TripCancelled\<close>): for every state and event, \<open>CanTransition\<close> is true exactly
  when the specification's table has an entry for the pair; where it has one, the map
  gives the same target, \<open>Transition\<close> succeeds and moves the order to that target; where
  it has none, \<open>Transition\<close> refuses the event with the invalid-transition error and
  changes nothing.
\<close>

theorem transitions_is_spec_table:
  "distinct (map fst spec_table)
   \<and> (CanTransition (ride w) e \<longleftrightarrow> map_of spec_table (State (ride w), e) \<noteq> None)
   \<and> (map_of spec_table (State (ride w), e) = Some t \<longrightarrow>
        fst (transitions_at (State (ride w)) e) = t
        \<and> fst (Transition e w) = None
        \<and> State (ride (snd (Transition e w))) = t)
   \<and> (map_of spec_table (State (ride w), e) = None \<longrightarrow>
        Transition e w = (Some (invalid_transition (State (ride w)) e), w))"
proof (intro conjI impI)
  show "distinct (map fst spec_table)"
    by (simp add: spec_table_def state_defs event_defs)
  show "CanTransition (ride w) e \<longleftrightarrow> map_of spec_table (State (ride w), e) \<noteq> None"
    by (rule CanTransition_spec)
next
  assume a: "map_of spec_table (State (ride w), e) = Some t"
  then have c: "CanTransition (ride w) e" by (simp add: CanTransition_spec)
  from a show f: "fst (transitions_at (State (ride w)) e) = t"
    by (simp add: transitions_at_spec)
  from c show "fst (Transition e w) = None" by (simp add: Transition_accept)
  from c f show "State (ride (snd (Transition e w))) = t" by (simp add: Transition_ride)
next
  assume "map_of spec_table (State (ride w), e) = None"
  then have "\<not> CanTransition (ride w) e" by (simp add: CanTransition_spec)
  then show "Transition e w = (Some (invalid_transition (State (ride w)) e), w)"
    by (rule Transition_reject)
qed

text \<open>
  At a fresh order the table of the specification sends \<open>selectCar\<close> to \<open>CarSelected\<close>
  and has no entry for \<open>endTrip\<close>; the code follows it in both.
\<close>

theorem transitions_is_spec_table_witness:
  "map_of spec_table (StateIdle, EventSelectCar) = Some StateCarSelected
   \<and> fst (Transition EventSelectCar (new_order ''RIDE-001'')) = None
   \<and> State (ride (snd (Transition EventSelectCar (new_order ''RIDE-001'')))) = StateCarSelected
   \<and> map_of spec_table (StateIdle, EventEndTrip) = None
   \<and> Transition EventEndTrip (new_order ''RIDE-001'') =
       (Some (invalid_transition StateIdle EventEndTrip), new_order ''RIDE-001'')"
proof -
  have s: "State (ride (new_order ''RIDE-001'')) = StateIdle"
    by (simp add: new_order_def)
  have a: "map_of spec_table (StateIdle, EventSelectCar) = Some StateCarSelected"
    by (simp add: spec_table_def state_defs event_defs)
  have b: "map_of spec_table (StateIdle, EventEndTrip) = None"
    by (simp add: spec_table_def state_defs event_defs)
  from a b s
    transitions_is_spec_table [of "new_order ''RIDE-001''" EventSelectCar StateCarSelected]
    transitions_is_spec_table [of "new_order ''RIDE-001''" EventEndTrip StateCarSelected]
  show ?thesis by simp
qed

subsection \<open>The orders of the driver\<close>

lemma order2_value:
  "order2 =
    \<lparr>ride = \<lparr>ID = ''RIDE-002'', State = StateTripCancelled, CarID = [], Driver = [],
        Rating = 0\<rparr>,
     trace =
       [Stdout ''Order RIDE-002: Idle -> CarSelected'', Store_State StateCarSelected,
        Stdout ''Car selected.'',
        Stdout ''Order RIDE-002: CarSelected -> TripCancelled'',
        Store_State StateTripCancelled,
        Stdout ''Order cancelled.'']\<rparr>"
  by (simp add: order2_def new_order_def run_defs)

lemma order3_value:
  "order3 =
    \<lparr>ride = \<lparr>ID = ''RIDE-003'', State = StateOrderConfirmed, CarID = [], Driver = [],
        Rating = 0\<rparr>,
     trace =
       [Stdout ''Order RIDE-003: Idle -> CarSelected'', Store_State StateCarSelected,
        Stdout ''Car selected.'',
        Stdout ''Order RIDE-003: CarSelected -> OrderConfirmed'',
        Store_State StateOrderConfirmed,
        Stdout ''Order confirmed. Car is on the way.'']\<rparr>"
  by (simp add: order3_def new_order_def run_defs)

lemma main_events_run:
  "State (ride w) = StateIdle \<Longrightarrow>
    fst (Transitions main_events w) = [None, None, None, None, None, None]
    \<and> State (ride (snd (Transitions main_events w))) = StateIdle"
  by (simp add: main_events_def run_defs)

subsection \<open>Rating\<close>

text \<open>
  Claim C3. \<open>SubmitRating\<close> returns the not-eligible error whenever the order's state is
  not \<open>Idle\<close>; in \<open>Idle\<close> it returns the out-of-range error whenever the rating is not
  between 1 and 5; in \<open>Idle\<close> with a rating between 1 and 5 it returns \<open>nil\<close> and the
  order's rating is the given value. The two errors are different, and in every case the
  order's state after the call is its state before.
\<close>

theorem SubmitRating_contract:
  "rating_not_eligible \<noteq> rating_out_of_range
   \<and> (State (ride w) \<noteq> StateIdle \<longrightarrow> fst (SubmitRating n w) = Some rating_not_eligible)
   \<and> (State (ride w) = StateIdle \<and> \<not> (1 \<le> n \<and> n \<le> 5) \<longrightarrow>
        fst (SubmitRating n w) = Some rating_out_of_range)
   \<and> (State (ride w) = StateIdle \<and> 1 \<le> n \<and> n \<le> 5 \<longrightarrow>
        fst (SubmitRating n w) = None \<and> Rating (ride (snd (SubmitRating n w))) = n)
   \<and> State (ride (snd (SubmitRating n w))) = State (ride w)"
  by (auto simp add: SubmitRating_def Let_def set_Rating_def println_def
      rating_not_eligible_def rating_out_of_range_def)

text \<open>
  The driver's \<open>order.SubmitRating(5)\<close> after the six calls succeeds; 6 on a fresh order is
  out of range; 5 on the confirmed \<open>order3\<close> is not eligible.
\<close>

theorem SubmitRating_contract_witness:
  "fst (SubmitRating 5 (snd (Transitions main_events (new_order ''RIDE-001'')))) = None
   \<and> Rating (ride (snd (SubmitRating 5
        (snd (Transitions main_events (new_order ''RIDE-001'')))))) = 5
   \<and> fst (SubmitRating 6 (new_order ''RIDE-001'')) = Some rating_out_of_range
   \<and> fst (SubmitRating 5 order3) = Some rating_not_eligible"
proof -
  let ?w = "snd (Transitions main_events (new_order ''RIDE-001''))"
  have c: "State (ride (new_order ''RIDE-001'')) = StateIdle"
    by (simp add: new_order_def)
  from main_events_run [OF c] have a: "State (ride ?w) = StateIdle" ..
  have b: "State (ride order3) \<noteq> StateIdle"
    by (simp add: order3_value state_defs)
  from a b c SubmitRating_contract [of ?w 5]
    SubmitRating_contract [of "new_order ''RIDE-001''" 6]
    SubmitRating_contract [of order3 5]
  show ?thesis by simp
qed

text \<open>
  Claim C10. The state is tested first: whenever the order's state is not \<open>Idle\<close>,
  \<open>SubmitRating\<close> returns the not-eligible error, whatever the rating, and so never the
  out-of-range error; and whenever it returns an error, the order is as it was (its rating
  with it) and nothing has been printed.
\<close>

theorem SubmitRating_eligibility_first:
  "(State (ride w) \<noteq> StateIdle \<longrightarrow>
      fst (SubmitRating n w) = Some rating_not_eligible
      \<and> fst (SubmitRating n w) \<noteq> Some rating_out_of_range)
   \<and> (fst (SubmitRating n w) \<noteq> None \<longrightarrow>
        snd (SubmitRating n w) = w
        \<and> Rating (ride (snd (SubmitRating n w))) = Rating (ride w))"
  by (auto simp add: SubmitRating_def Let_def rating_not_eligible_def rating_out_of_range_def)

text \<open>The rating 9 on the confirmed \<open>order3\<close> is refused as not eligible, not as out of range.\<close>

theorem SubmitRating_eligibility_first_witness:
  "State (ride order3) \<noteq> StateIdle
   \<and> fst (SubmitRating 9 order3) = Some rating_not_eligible
   \<and> fst (SubmitRating 9 order3) \<noteq> Some rating_out_of_range
   \<and> snd (SubmitRating 9 order3) = order3
   \<and> Rating (ride (snd (SubmitRating 9 order3))) = 0"
proof -
  have b: "State (ride order3) \<noteq> StateIdle"
    by (simp add: order3_value state_defs)
  have r: "Rating (ride order3) = 0"
    by (simp add: order3_value)
  from b r SubmitRating_eligibility_first [of order3 9] show ?thesis
    by (simp add: rating_not_eligible_def rating_out_of_range_def)
qed

subsection \<open>The cancelled state and the full cycle\<close>

text \<open>
  Claim C6. For an order in \<open>TripCancelled\<close> and every event, \<open>CanTransition\<close> is false and
  \<open>Transition\<close> returns the invalid-transition error and changes nothing; and any run of
  \<open>Transition\<close> calls, whatever its events and its length, returns an error at every call
  and ends in the very state it started from.
\<close>

theorem TripCancelled_absorbing:
  "State (ride w) = StateTripCancelled \<Longrightarrow>
    \<not> CanTransition (ride w) e
    \<and> Transition e w = (Some (invalid_transition StateTripCancelled e), w)
    \<and> Transitions es w = (map (\<lambda>e. Some (invalid_transition StateTripCancelled e)) es, w)"
  using Transition_reject [of w e]
  by (simp add: cancelled_rejects Transitions_cancelled)

text \<open>The cancelled \<open>order2\<close> refuses \<open>selectCar\<close>, and the six events of the full cycle.\<close>

theorem TripCancelled_absorbing_witness:
  "State (ride order2) = StateTripCancelled
   \<and> \<not> CanTransition (ride order2) EventSelectCar
   \<and> Transition EventSelectCar order2 =
       (Some (invalid_transition StateTripCancelled EventSelectCar), order2)
   \<and> snd (Transitions main_events order2) = order2"
proof -
  have s: "State (ride order2) = StateTripCancelled"
    by (simp add: order2_value)
  from s TripCancelled_absorbing [OF s, of EventSelectCar main_events] show ?thesis
    by simp
qed

text \<open>
  Claim C7. From any order in \<open>Idle\<close>, the calls of \<open>Transition\<close> with \<open>selectCar\<close>,
  \<open>confirmOrder\<close>, \<open>carArrived\<close>, \<open>startTrip\<close>, \<open>endTrip\<close>, \<open>paymentSuccess\<close>, in this order, all
  return \<open>nil\<close>, and the order is in \<open>Idle\<close> again after the last.
\<close>

theorem happy_path_cycle:
  "State (ride w) = StateIdle \<Longrightarrow>
    fst (Transitions
      [EventSelectCar, EventConfirmOrder, EventCarArrived,
       EventStartTrip, EventEndTrip, EventPaymentSuccess] w) =
      [None, None, None, None, None, None]
    \<and> State (ride (snd (Transitions
      [EventSelectCar, EventConfirmOrder, EventCarArrived,
       EventStartTrip, EventEndTrip, EventPaymentSuccess] w))) = StateIdle"
  using main_events_run [of w] by (simp only: main_events_def)

theorem happy_path_cycle_witness:
  "State (ride (new_order ''RIDE-001'')) = StateIdle
   \<and> fst (Transitions
      [EventSelectCar, EventConfirmOrder, EventCarArrived,
       EventStartTrip, EventEndTrip, EventPaymentSuccess] (new_order ''RIDE-001'')) =
      [None, None, None, None, None, None]
   \<and> State (ride (snd (Transitions
      [EventSelectCar, EventConfirmOrder, EventCarArrived,
       EventStartTrip, EventEndTrip, EventPaymentSuccess] (new_order ''RIDE-001'')))) = StateIdle"
proof -
  have c: "State (ride (new_order ''RIDE-001'')) = StateIdle"
    by (simp add: new_order_def)
  from c happy_path_cycle [OF c] show ?thesis
    by (simp only: simp_thms)
qed

subsection \<open>What a successful transition emits\<close>

text \<open>
  The lines of the \<open>switch\<close>, event by event: ten of the eleven events have a case, and
  \<open>changeCar\<close> has none.
\<close>

lemma event_message_table:
  "map event_message
     [EventSelectCar, EventConfirmOrder, EventCarArrived, EventStartTrip, EventEndTrip,
      EventCancelOrder, EventCarDelayed, EventEmergencyCancel,
      EventPaymentSuccess, EventPaymentFailed, EventChangeCar] =
     [Some ''Car selected.'', Some ''Order confirmed. Car is on the way.'',
      Some ''Car has arrived.'', Some ''Trip started.'',
      Some ''Trip completed. Payment pending.'',
      Some ''Order cancelled.'', Some ''Order cancelled.'', Some ''Order cancelled.'',
      Some ''Payment successful.'', Some ''Payment failed. Please try again.'', None]"
  by (simp add: event_message_def event_defs)

text \<open>Every event the table accepts in some state, other than \<open>changeCar\<close>, has a line.\<close>

lemma event_message_defined:
  "CanTransition r e \<Longrightarrow> e \<noteq> EventChangeCar \<Longrightarrow> event_message e \<noteq> None"
  by (auto simp add: CanTransition_spec spec_table_def event_message_def split: if_splits)

text \<open>
  The two self-loops of the table, on any order in their state: both are accepted and
  leave the order as it is. The trace gains the transition record and the store of the
  state; after them \<open>paymentFailed\<close> has its line, and \<open>changeCar\<close> has nothing.
\<close>

lemma self_loops_trace:
  "(State (ride w) = StateCarSelected \<longrightarrow>
      CanTransition (ride w) EventChangeCar
      \<and> Transition EventChangeCar w =
          (None, w\<lparr>trace := trace w @
             [Stdout (transition_log (ID (ride w)) StateCarSelected StateCarSelected),
              Store_State StateCarSelected]\<rparr>)
      \<and> State (ride (snd (Transition EventChangeCar w))) = StateCarSelected)
   \<and> (State (ride w) = StateTripCompleted \<longrightarrow>
      CanTransition (ride w) EventPaymentFailed
      \<and> Transition EventPaymentFailed w =
          (None, w\<lparr>trace := trace w @
             [Stdout (transition_log (ID (ride w)) StateTripCompleted StateTripCompleted),
              Store_State StateTripCompleted,
              Stdout ''Payment failed. Please try again.'']\<rparr>)
      \<and> State (ride (snd (Transition EventPaymentFailed w))) = StateTripCompleted)"
proof (intro conjI impI)
  assume s: "State (ride w) = StateCarSelected"
  then show c: "CanTransition (ride w) EventChangeCar"
    by (simp add: CanTransition_spec spec_table_def state_defs event_defs)
  have t: "fst (transitions_at StateCarSelected EventChangeCar) = StateCarSelected"
    by (simp add: transitions_at_spec spec_table_def state_defs event_defs)
  have m: "event_message EventChangeCar = None"
    by (simp add: event_message_def event_defs)
  have u: "(ride w)\<lparr>State := StateCarSelected\<rparr> = ride w"
    using s by simp
  show e: "Transition EventChangeCar w =
          (None, w\<lparr>trace := trace w @
             [Stdout (transition_log (ID (ride w)) StateCarSelected StateCarSelected),
              Store_State StateCarSelected]\<rparr>)"
    using s by (simp add: Transition_accept [OF c] t m u println_def set_State_def)
  show "State (ride (snd (Transition EventChangeCar w))) = StateCarSelected"
    using s by (simp add: e)
next
  assume s: "State (ride w) = StateTripCompleted"
  then show c: "CanTransition (ride w) EventPaymentFailed"
    by (simp add: CanTransition_spec spec_table_def state_defs event_defs)
  have t: "fst (transitions_at StateTripCompleted EventPaymentFailed) = StateTripCompleted"
    by (simp add: transitions_at_spec spec_table_def state_defs event_defs)
  have m: "event_message EventPaymentFailed = Some ''Payment failed. Please try again.''"
    by (simp add: event_message_def event_defs)
  have u: "(ride w)\<lparr>State := StateTripCompleted\<rparr> = ride w"
    using s by simp
  show e: "Transition EventPaymentFailed w =
          (None, w\<lparr>trace := trace w @
             [Stdout (transition_log (ID (ride w)) StateTripCompleted StateTripCompleted),
              Store_State StateTripCompleted,
              Stdout ''Payment failed. Please try again.'']\<rparr>)"
    using s by (simp add: Transition_accept [OF c] t m u println_def set_State_def)
  show "State (ride (snd (Transition EventPaymentFailed w))) = StateTripCompleted"
    using s by (simp add: e)
qed



text \<open>
  Claim C5 asks of every successful transition the transition record, then the store of
  the state, then the line of its event. The code at the accepted pair of \<open>CarSelected\<close>
  and \<open>changeCar\<close>, on a fresh order after \<open>selectCar\<close>: the call returns \<open>nil\<close> and adds to
  the trace the transition record and the store of the state, and no line for the event
  after them; the \<open>selectCar\<close> before it added all three, in the order asked.
\<close>

theorem ChangeCar_emits_no_message:
  "Transition EventChangeCar (snd (Transition EventSelectCar (new_order ''RIDE-003''))) =
    (None,
     \<lparr>ride = \<lparr>ID = ''RIDE-003'', State = StateCarSelected, CarID = [], Driver = [],
        Rating = 0\<rparr>,
      trace =
        [Stdout ''Order RIDE-003: Idle -> CarSelected'',
         Store_State StateCarSelected,
         Stdout ''Car selected.'',
         Stdout ''Order RIDE-003: CarSelected -> CarSelected'',
         Store_State StateCarSelected]\<rparr>)"
  by (simp add: new_order_def run_defs)

subsection \<open>The delay watcher\<close>

lemma ride_println: "ride (println s v) = ride v"
  by (simp add: println_def)

lemma CarDelayed_only_OrderConfirmed:
  "CanTransition r EventCarDelayed \<longleftrightarrow> State r = StateOrderConfirmed"
  by (simp add: CanTransition_spec spec_table_def state_defs event_defs)

lemma fire_state:
  "State (ride (SimulateDelay_fire v)) =
    (if State (ride v) = StateOrderConfirmed then StateTripCancelled else State (ride v))"
  by (simp add: SimulateDelay_fire_def run_defs)

lemma fire_rejected:
  assumes "State (ride v) \<noteq> StateOrderConfirmed"
  shows "Transition EventCarDelayed (println ''Car is delayed...'' v) =
      (Some (invalid_transition (State (ride v)) EventCarDelayed),
       println ''Car is delayed...'' v)"
proof -
  from assms have "\<not> CanTransition (ride (println ''Car is delayed...'' v)) EventCarDelayed"
    by (simp add: CarDelayed_only_OrderConfirmed ride_println)
  from Transition_reject [OF this] show ?thesis
    by (simp add: ride_println)
qed

lemma Transitions_single: "snd (Transitions [e] w) = snd (Transition e w)"
  by (simp split: prod.split)

lemma SimulateDelay_alone: "SimulateDelay_after [] w = SimulateDelay w"
  by (simp add: SimulateDelay_after_def SimulateDelay_def)

text \<open>
  Claim C8. The watcher submits \<open>carDelayed\<close> through \<open>Transition\<close>, on the order as it is
  when the watcher resumes. For an order in \<open>OrderConfirmed\<close> when the watcher starts: if
  the main flow applies \<open>carArrived\<close> during the sleep, the order is in \<open>CarArrived\<close>, the
  watcher's \<open>Transition\<close> call returns the invalid-transition error and the order is still
  in \<open>CarArrived\<close> afterwards; if the main flow does nothing, the order ends in
  \<open>TripCancelled\<close>. In general \<open>carDelayed\<close> is allowed in \<open>OrderConfirmed\<close> only, so the
  resumed watcher moves an order in \<open>OrderConfirmed\<close> to \<open>TripCancelled\<close> and leaves an order
  in any other state as it is; and what it sees is the order left by the main flow's
  events, whatever they were.
\<close>

theorem delay_checked_at_fire_time:
  "(State (ride w) = StateOrderConfirmed \<longrightarrow>
      SimulateDelay_guard w
      \<and> State (ride (snd (Transition EventCarArrived w))) = StateCarArrived
      \<and> fst (Transition EventCarDelayed
            (println ''Car is delayed...'' (snd (Transition EventCarArrived w)))) =
          Some (invalid_transition StateCarArrived EventCarDelayed)
      \<and> State (ride (SimulateDelay_after [EventCarArrived] w)) = StateCarArrived
      \<and> State (ride (SimulateDelay_after [] w)) = StateTripCancelled)
   \<and> (CanTransition (ride v) EventCarDelayed \<longleftrightarrow> State (ride v) = StateOrderConfirmed)
   \<and> State (ride (SimulateDelay_fire v)) =
       (if State (ride v) = StateOrderConfirmed then StateTripCancelled else State (ride v))
   \<and> (State (ride v) \<noteq> StateOrderConfirmed \<longrightarrow> ride (SimulateDelay_fire v) = ride v)
   \<and> (SimulateDelay_guard w \<longrightarrow>
        SimulateDelay_after es w = SimulateDelay_fire (snd (Transitions es w)))"
proof (intro conjI impI)
  assume s: "State (ride w) = StateOrderConfirmed"
  let ?w1 = "snd (Transition EventCarArrived w)"
  from s show g: "SimulateDelay_guard w"
    by (simp add: SimulateDelay_guard_def)
  from s show a: "State (ride ?w1) = StateCarArrived"
    by (simp add: run_defs)
  have n: "State (ride ?w1) \<noteq> StateOrderConfirmed"
    unfolding a by (simp add: state_defs)
  have "fst (Transition EventCarDelayed (println ''Car is delayed...'' ?w1)) =
      Some (invalid_transition (State (ride ?w1)) EventCarDelayed)"
    by (simp only: fire_rejected [OF n] fst_conv)
  then show "fst (Transition EventCarDelayed (println ''Car is delayed...'' ?w1)) =
      Some (invalid_transition StateCarArrived EventCarDelayed)"
    by (simp only: a)
  have "SimulateDelay_after [EventCarArrived] w = SimulateDelay_fire ?w1"
    using g by (simp only: SimulateDelay_after_def Transitions_single if_True)
  then show "State (ride (SimulateDelay_after [EventCarArrived] w)) = StateCarArrived"
    using n a by (simp only: fire_state if_False)
  from g s show "State (ride (SimulateDelay_after [] w)) = StateTripCancelled"
    by (simp add: SimulateDelay_after_def fire_state)
next
  show "CanTransition (ride v) EventCarDelayed \<longleftrightarrow> State (ride v) = StateOrderConfirmed"
    by (rule CarDelayed_only_OrderConfirmed)
  show "State (ride (SimulateDelay_fire v)) =
       (if State (ride v) = StateOrderConfirmed then StateTripCancelled else State (ride v))"
    by (rule fire_state)
next
  assume "State (ride v) \<noteq> StateOrderConfirmed"
  from fire_rejected [OF this] show "ride (SimulateDelay_fire v) = ride v"
    by (simp add: SimulateDelay_fire_def ride_println)
next
  assume "SimulateDelay_guard w"
  then show "SimulateDelay_after es w = SimulateDelay_fire (snd (Transitions es w))"
    by (simp add: SimulateDelay_after_def)
qed

text \<open>
  The watcher of the driver is started on the confirmed \<open>order3\<close>; a fresh order, in
  \<open>Idle\<close>, is one the resumed watcher leaves alone.
\<close>

theorem delay_checked_at_fire_time_witness:
  "State (ride order3) = StateOrderConfirmed
   \<and> State (ride (SimulateDelay_after [EventCarArrived] order3)) = StateCarArrived
   \<and> State (ride (SimulateDelay_after [] order3)) = StateTripCancelled
   \<and> State (ride (new_order ''RIDE-003'')) \<noteq> StateOrderConfirmed
   \<and> ride (SimulateDelay_fire (new_order ''RIDE-003'')) = ride (new_order ''RIDE-003'')"
proof -
  have s: "State (ride order3) = StateOrderConfirmed"
    by (simp add: order3_value)
  have n: "State (ride (new_order ''RIDE-003'')) \<noteq> StateOrderConfirmed"
    by (simp add: new_order_def state_defs)
  from s n delay_checked_at_fire_time [of order3 "new_order ''RIDE-003''" "[EventCarArrived]"]
  show ?thesis
    by blast
qed

end
